theory Spec2Isabelle
  imports Main "HOL-Library.AList"
begin

section \<open>Python values and exceptions\<close>

text \<open>
  The two catalog clients hand back decoded JSON: Python dicts, lists, strings, integers,
  booleans and \<open>None\<close>. A dict is an association list in insertion order with string
  keys; a string is a list of characters with code points below 256; numbers are integers
  (popularity scores and counts).
\<close>

datatype json =
    JNull
  | JBool bool
  | JInt int
  | JStr string
  | JList "json list"
  | JDict "(string \<times> json) list"

text \<open>
  The exceptions the program can meet. \<open>KeyboardInterrupt\<close> and \<open>SystemExit\<close> derive from
  \<open>BaseException\<close> only; every other one derives from \<open>Exception\<close>, which is what the
  handlers of the source name (\<open>except Exception as e\<close>).
\<close>

datatype exn =
    KeyError string
  | IndexError
  | TypeError
  | AttributeError
  | OtherException string
  | KeyboardInterrupt
  | SystemExit

fun is_Exception :: "exn \<Rightarrow> bool" where
  "is_Exception KeyboardInterrupt = False"
| "is_Exception SystemExit = False"
| "is_Exception _ = True"

text \<open>Sequencing of two computations that may raise.\<close>

definition bnd :: "exn + 'a \<Rightarrow> ('a \<Rightarrow> exn + 'b) \<Rightarrow> exn + 'b" where
  "bnd m k = (case m of Inl e \<Rightarrow> Inl e | Inr v \<Rightarrow> k v)"

text \<open>
  \<open>try: body except Exception as e: print(...); return None\<close>: an exception derived
  from \<open>Exception\<close> becomes the value \<open>None\<close>; any other one propagates.
\<close>

definition except_Exception :: "exn + json \<Rightarrow> exn + json" where
  "except_Exception body =
     (case body of
        Inl e \<Rightarrow> (if is_Exception e then Inr JNull else Inl e)
      | Inr v \<Rightarrow> Inr v)"

text \<open>Truth value of a Python object, as \<open>if x:\<close> and \<open>and\<close> test it.\<close>

fun truthy :: "json \<Rightarrow> bool" where
  "truthy JNull = False"
| "truthy (JBool b) = b"
| "truthy (JInt i) = (i \<noteq> 0)"
| "truthy (JStr s) = (s \<noteq> [])"
| "truthy (JList xs) = (xs \<noteq> [])"
| "truthy (JDict d) = (d \<noteq> [])"

text \<open>\<open>x.get(key)\<close>: only a dict has the method; a missing key gives \<open>None\<close>.\<close>

fun dict_get :: "json \<Rightarrow> string \<Rightarrow> exn + json" where
  "dict_get (JDict d) k = (case map_of d k of None \<Rightarrow> Inr JNull | Some v \<Rightarrow> Inr v)"
| "dict_get _ k = Inl AttributeError"

text \<open>\<open>x[key]\<close> with a string key: \<open>KeyError\<close> on a dict without the key, \<open>TypeError\<close>
  on anything that is not a dict.\<close>

fun subscript :: "json \<Rightarrow> string \<Rightarrow> exn + json" where
  "subscript (JDict d) k = (case map_of d k of None \<Rightarrow> Inl (KeyError k) | Some v \<Rightarrow> Inr v)"
| "subscript _ k = Inl TypeError"

text \<open>\<open>x[0]\<close>: the first element of a list, the first character of a string,
  \<open>IndexError\<close> when either is empty, \<open>KeyError\<close> on a dict (its keys are strings),
  \<open>TypeError\<close> otherwise.\<close>

fun index0 :: "json \<Rightarrow> exn + json" where
  "index0 (JList []) = Inl IndexError"
| "index0 (JList (x # xs)) = Inr x"
| "index0 (JStr []) = Inl IndexError"
| "index0 (JStr (c # cs)) = Inr (JStr [c])"
| "index0 (JDict d) = Inl (KeyError ''0'')"
| "index0 _ = Inl TypeError"

text \<open>\<open>for result in results\<close>: the elements of a list, the characters of a string,
  the keys of a dict; \<open>TypeError\<close> on a value that is not iterable.\<close>

fun py_iter :: "json \<Rightarrow> exn + json list" where
  "py_iter (JList xs) = Inr xs"
| "py_iter (JStr s) = Inr (map (\<lambda>c. JStr [c]) s)"
| "py_iter (JDict d) = Inr (map (\<lambda>kv. JStr (fst kv)) d)"
| "py_iter _ = Inl TypeError"

subsection \<open>Text of a value inside an f-string\<close>

function str_nat :: "nat \<Rightarrow> string" where
  "str_nat n =
     (if n < 10 then [char_of (48 + n)]
      else str_nat (n div 10) @ [char_of (48 + n mod 10)])"
  by pat_completeness auto
termination
  by (relation "measure (\<lambda>n. n)") auto

definition str_int :: "int \<Rightarrow> string" where
  "str_int i = (if i < 0 then CHR ''-'' # str_nat (nat (- i)) else str_nat (nat i))"

definition hex_digit :: "nat \<Rightarrow> char" where
  "hex_digit n = (if n < 10 then char_of (48 + n) else char_of (87 + n))"

text \<open>One character of \<open>repr\<close> of a string delimited by the quote \<open>q\<close>.\<close>

definition repr_char :: "char \<Rightarrow> char \<Rightarrow> string" where
  "repr_char q c =
     (let n = (of_char c :: nat) in
      if c = q \<or> n = 0x5C then [CHR 0x5C, c]
      else if n = 0x09 then [CHR 0x5C, CHR ''t'']
      else if n = 0x0A then [CHR 0x5C, CHR ''n'']
      else if n = 0x0D then [CHR 0x5C, CHR ''r'']
      else if n < 0x20 \<or> n = 0x7F \<or> (0x80 \<le> n \<and> n \<le> 0xA0) \<or> n = 0xAD
        then [CHR 0x5C, CHR ''x'', hex_digit (n div 16), hex_digit (n mod 16)]
      else [c])"

definition repr_str :: "string \<Rightarrow> string" where
  "repr_str s =
     (let q = (if CHR 0x27 \<in> set s \<and> CHR 0x22 \<notin> set s then CHR 0x22 else CHR 0x27)
      in q # concat (map (repr_char q) s) @ [q])"

fun join :: "string \<Rightarrow> string list \<Rightarrow> string" where
  "join sep [] = []"
| "join sep [x] = x"
| "join sep (x # y # ys) = x @ sep @ join sep (y # ys)"

fun py_repr :: "json \<Rightarrow> string" where
  "py_repr JNull = ''None''"
| "py_repr (JBool b) = (if b then ''True'' else ''False'')"
| "py_repr (JInt i) = str_int i"
| "py_repr (JStr s) = repr_str s"
| "py_repr (JList xs) = ''['' @ join '', '' (map py_repr xs) @ '']''"
| "py_repr (JDict d) =
     ''{'' @ join '', '' (map (\<lambda>kv. repr_str (fst kv) @ '': '' @ py_repr (snd kv)) d) @ ''}''"

text \<open>\<open>f"{x}"\<close> is \<open>str(x)\<close>: a string stands for itself, anything else is printed
  as \<open>repr\<close> prints it.\<close>

fun py_str :: "json \<Rightarrow> string" where
  "py_str (JStr s) = s"
| "py_str v = py_repr v"

declare str_nat.simps [simp del]

section \<open>The fetcher\<close>

text \<open>
  A client answers a search with a decoded JSON value or raises. \<open>sp\<close> stands for
  \<open>self.sp.search(q=query, type='track', limit=1)\<close> and \<open>yt\<close> for \<open>self.yt\<close>, whose
  search is \<open>self.yt.search(query, filter="songs")\<close>; \<open>yt\<close> is \<open>None\<close> when the client
  could not be built.
\<close>

type_synonym client = "string \<Rightarrow> exn + json"

record fetcher =
  sp :: client
  yt :: "client option"

text \<open>
  The constructor. \<open>Spotify\<close> is \<open>spotipy.Spotify(auth_manager=SpotifyClientCredentials(...))\<close>,
  built outside any handler; \<open>YTMusic\<close> is the other client's constructor, called with the
  authentication file when one is given and exists, and without argument otherwise;
  \<open>path_exists\<close> is \<open>os.path.exists\<close>.
\<close>

definition init ::
  "(string \<Rightarrow> string \<Rightarrow> exn + client) \<Rightarrow> (string option \<Rightarrow> exn + client) \<Rightarrow> (string \<Rightarrow> bool) \<Rightarrow>
   string \<Rightarrow> string \<Rightarrow> string option \<Rightarrow> exn + fetcher" where
  "init Spotify YTMusic path_exists spotify_client_id spotify_client_secret ytmusic_auth_file =
     bnd (Spotify spotify_client_id spotify_client_secret) (\<lambda>sp_client.
       case (case ytmusic_auth_file of
               None \<Rightarrow> YTMusic None
             | Some file \<Rightarrow> if file \<noteq> [] \<and> path_exists file then YTMusic (Some file)
                            else YTMusic None) of
         Inr yt_client \<Rightarrow> Inr \<lparr>sp = sp_client, yt = Some yt_client\<rparr>
       | Inl e \<Rightarrow> if is_Exception e then Inr \<lparr>sp = sp_client, yt = None\<rparr> else Inl e)"

subsection \<open>Backend A\<close>

definition spotify_query :: "string \<Rightarrow> string \<Rightarrow> string" where
  "spotify_query artist_name track_title = ''track:'' @ track_title @ '' artist:'' @ artist_name"

text \<open>\<open>results['tracks']['items']\<close>\<close>

definition tracks_items :: "json \<Rightarrow> exn + json" where
  "tracks_items results = bnd (subscript results ''tracks'') (\<lambda>tracks. subscript tracks ''items'')"

text \<open>The dict built from the first track, its four values evaluated in the order written.\<close>

definition spotify_entry :: "json \<Rightarrow> exn + json" where
  "spotify_entry track =
     bnd (subscript track ''popularity'') (\<lambda>popularity.
     bnd (bnd (subscript track ''external_urls'') (\<lambda>urls. subscript urls ''spotify'')) (\<lambda>external_url.
     bnd (bnd (subscript track ''album'') (\<lambda>album. subscript album ''name'')) (\<lambda>album_name.
     bnd (bnd (subscript track ''album'') (\<lambda>album. subscript album ''release_date'')) (\<lambda>release_date.
       Inr (JDict [(''popularity'', popularity), (''external_url'', external_url),
                   (''album'', album_name), (''release_date'', release_date)])))))"

text \<open>The body of the \<open>try\<close> block once the search has answered.\<close>

definition spotify_body :: "json \<Rightarrow> exn + json" where
  "spotify_body results =
     (if \<not> truthy results then Inr JNull
      else bnd (tracks_items results) (\<lambda>items.
        if truthy items
        then bnd (tracks_items results) (\<lambda>items. bnd (index0 items) spotify_entry)
        else Inr JNull))"

definition get_spotify_data :: "fetcher \<Rightarrow> string \<Rightarrow> string \<Rightarrow> exn + json" where
  "get_spotify_data self artist_name track_title =
     except_Exception
       (bnd (sp self (spotify_query artist_name track_title)) spotify_body)"

subsection \<open>Backend B\<close>

definition youtube_query :: "string \<Rightarrow> string \<Rightarrow> string" where
  "youtube_query artist_name track_title = artist_name @ '' '' @ track_title"

text \<open>
  The test of the first loop for one result type:
  \<open>result.get('resultType') == kind and result.get('artists') and
   result.get('artists')[0].get('name') == artist_name and result.get('title') == track_title\<close>,
  evaluated left to right and stopping at the first operand that is false.
\<close>

definition exact_match :: "string \<Rightarrow> string \<Rightarrow> string \<Rightarrow> json \<Rightarrow> exn + bool" where
  "exact_match kind artist_name track_title result =
     bnd (dict_get result ''resultType'') (\<lambda>result_type.
       if result_type \<noteq> JStr kind then Inr False
       else bnd (dict_get result ''artists'') (\<lambda>artists.
         if \<not> truthy artists then Inr False
         else bnd (bnd (bnd (dict_get result ''artists'') index0) (\<lambda>first. dict_get first ''name''))
           (\<lambda>name.
             if name \<noteq> JStr artist_name then Inr False
             else bnd (dict_get result ''title'') (\<lambda>title. Inr (title = JStr track_title)))))"

text \<open>\<open>{"views": result.get('views'), "url": f"<prefix>{result['videoId']}"}\<close>\<close>

definition youtube_entry :: "string \<Rightarrow> json \<Rightarrow> exn + json" where
  "youtube_entry prefix result =
     bnd (dict_get result ''views'') (\<lambda>views.
     bnd (subscript result ''videoId'') (\<lambda>video_id.
       Inr (JDict [(''views'', views), (''url'', JStr (prefix @ py_str video_id))])))"

definition music_url :: string where
  "music_url = ''https://music.youtube.com/watch?v=''"

definition video_url :: string where
  "video_url = ''https://www.youtube.com/watch?v=''"

text \<open>The first loop: \<open>Some\<close> is a value returned from inside the loop, \<open>None\<close> the
  end of the list.\<close>

fun exact_loop :: "string \<Rightarrow> string \<Rightarrow> json list \<Rightarrow> exn + json option" where
  "exact_loop artist_name track_title [] = Inr None"
| "exact_loop artist_name track_title (result # rest) =
     bnd (exact_match ''song'' artist_name track_title result) (\<lambda>is_song.
       if is_song then bnd (youtube_entry music_url result) (\<lambda>entry. Inr (Some entry))
       else bnd (exact_match ''video'' artist_name track_title result) (\<lambda>is_video.
         if is_video then bnd (youtube_entry video_url result) (\<lambda>entry. Inr (Some entry))
         else exact_loop artist_name track_title rest))"

text \<open>The second loop: \<open>result.get('resultType') == 'song' and result.get('views')\<close>.\<close>

definition fallback_test :: "json \<Rightarrow> exn + bool" where
  "fallback_test result =
     bnd (dict_get result ''resultType'') (\<lambda>result_type.
       if result_type \<noteq> JStr ''song'' then Inr False
       else bnd (dict_get result ''views'') (\<lambda>views. Inr (truthy views)))"

fun fallback_loop :: "json list \<Rightarrow> exn + json option" where
  "fallback_loop [] = Inr None"
| "fallback_loop (result # rest) =
     bnd (fallback_test result) (\<lambda>eligible.
       if eligible then bnd (youtube_entry music_url result) (\<lambda>entry. Inr (Some entry))
       else fallback_loop rest)"

text \<open>The body of the \<open>try\<close> block once the search has answered: both loops run
  over the same list.\<close>

definition youtube_body :: "string \<Rightarrow> string \<Rightarrow> json \<Rightarrow> exn + json" where
  "youtube_body artist_name track_title results =
     (if \<not> truthy results then Inr JNull
      else bnd (py_iter results) (\<lambda>rs.
        bnd (exact_loop artist_name track_title rs) (\<lambda>found.
          case found of
            Some entry \<Rightarrow> Inr entry
          | None \<Rightarrow>
              bnd (fallback_loop rs) (\<lambda>found.
                case found of Some entry \<Rightarrow> Inr entry | None \<Rightarrow> Inr JNull))))"

definition get_youtube_music_data :: "fetcher \<Rightarrow> string \<Rightarrow> string \<Rightarrow> exn + json" where
  "get_youtube_music_data self artist_name track_title =
     (case yt self of
        None \<Rightarrow> Inr JNull
      | Some search \<Rightarrow>
          except_Exception
            (bnd (search (youtube_query artist_name track_title))
               (youtube_body artist_name track_title)))"

subsection \<open>Progress lines\<close>

text \<open>
  The aggregator reports on standard output with five \<open>print\<close> statements, none of them
  inside a handler. A \<open>print\<close> builds the text of its line and writes it; either step can
  raise (a value whose text cannot be built, a stream that cannot encode or take the
  text). What happens is the environment's: \<open>out\<close> gives, for each line, \<open>None\<close> when it
  is written and the exception raised otherwise.
\<close>

datatype progress =
    Fetching string string
  | SpotifyPopularity json
  | SpotifyNotFound
  | YouTubeViews json
  | YouTubeNotFound

type_synonym printer = "progress \<Rightarrow> exn option"

definition print_line :: "printer \<Rightarrow> progress \<Rightarrow> exn + unit" where
  "print_line out line = (case out line of None \<Rightarrow> Inr () | Some e \<Rightarrow> Inl e)"

text \<open>\<open>x.get(key, default)\<close>\<close>

fun dict_get_default :: "json \<Rightarrow> string \<Rightarrow> json \<Rightarrow> exn + json" where
  "dict_get_default (JDict d) k default_value =
     (case map_of d k of None \<Rightarrow> Inr default_value | Some v \<Rightarrow> Inr v)"
| "dict_get_default _ k default_value = Inl AttributeError"

subsection \<open>The aggregator\<close>

text \<open>
  \<open>data\<close> starts with both service fields empty; a lookup that returned something true
  replaces its field, and each step is reported: \<open>Fetching data for: ...\<close> first, then
  for each service the metric found (\<open>.get('popularity', 'N/A')\<close>, \<open>.get('views', 'N/A')\<close>)
  or \<open>... data not found or error occurred.\<close>
\<close>

definition get_streaming_data :: "printer \<Rightarrow> fetcher \<Rightarrow> string \<Rightarrow> string \<Rightarrow> exn + json" where
  "get_streaming_data out self artist_name track_title =
     (let data = [(''artist'', JStr artist_name), (''title'', JStr track_title),
                  (''spotify'', JDict []), (''youtube_music'', JDict [])]
      in bnd (print_line out (Fetching artist_name track_title)) (\<lambda>_.
         bnd (get_spotify_data self artist_name track_title) (\<lambda>spotify_data.
         bnd (if truthy spotify_data
              then let data = AList.update ''spotify'' spotify_data data
                   in bnd (dict_get_default spotify_data ''popularity'' (JStr ''N/A''))
                        (\<lambda>popularity.
                   bnd (print_line out (SpotifyPopularity popularity)) (\<lambda>_. Inr data))
              else bnd (print_line out SpotifyNotFound) (\<lambda>_. Inr data)) (\<lambda>data.
         bnd (get_youtube_music_data self artist_name track_title) (\<lambda>youtube_music_data.
         bnd (if truthy youtube_music_data
              then let data = AList.update ''youtube_music'' youtube_music_data data
                   in bnd (dict_get_default youtube_music_data ''views'' (JStr ''N/A''))
                        (\<lambda>views.
                   bnd (print_line out (YouTubeViews views)) (\<lambda>_. Inr data))
              else bnd (print_line out YouTubeNotFound) (\<lambda>_. Inr data)) (\<lambda>data.
         Inr (JDict data)))))))"

section \<open>What the lookups can return\<close>

lemma bnd_Inl [simp]: "bnd (Inl e) k = Inl e"
  by (simp add: bnd_def)

lemma bnd_Inr [simp]: "bnd (Inr v) k = k v"
  by (simp add: bnd_def)

lemma bnd_eq_Inr: "bnd m k = Inr y \<longleftrightarrow> (\<exists>v. m = Inr v \<and> k v = Inr y)"
  by (cases m) simp_all

lemma bnd_eq_Inl: "bnd m k = Inl e \<longleftrightarrow> m = Inl e \<or> (\<exists>v. m = Inr v \<and> k v = Inl e)"
  by (cases m) simp_all

lemma dict_get_raises: "dict_get x k = Inl e \<Longrightarrow> is_Exception e"
  by (cases x) (auto split: option.splits)

lemma subscript_raises: "subscript x k = Inl e \<Longrightarrow> is_Exception e"
  by (cases x) (auto split: option.splits)

lemma index0_raises: "index0 x = Inl e \<Longrightarrow> is_Exception e"
  by (cases x rule: index0.cases) auto

lemma py_iter_raises: "py_iter x = Inl e \<Longrightarrow> is_Exception e"
  by (cases x) auto

lemma tracks_items_raises: "tracks_items r = Inl e \<Longrightarrow> is_Exception e"
  unfolding tracks_items_def by (auto simp: bnd_eq_Inl dest: subscript_raises)

lemma spotify_entry_raises: "spotify_entry tr = Inl e \<Longrightarrow> is_Exception e"
  unfolding spotify_entry_def by (auto simp: bnd_eq_Inl dest: subscript_raises)

lemma spotify_entry_keys:
  "spotify_entry tr = Inr v \<Longrightarrow>
   \<exists>p u n d. v = JDict [(''popularity'', p), (''external_url'', u), (''album'', n), (''release_date'', d)]"
  unfolding spotify_entry_def by (auto simp: bnd_eq_Inr)

lemma exact_match_raises: "exact_match k a t r = Inl e \<Longrightarrow> is_Exception e"
  unfolding exact_match_def
  by (auto simp: bnd_eq_Inl split: if_splits dest: dict_get_raises index0_raises)

lemma youtube_entry_raises: "youtube_entry p r = Inl e \<Longrightarrow> is_Exception e"
  unfolding youtube_entry_def by (auto simp: bnd_eq_Inl dest: dict_get_raises subscript_raises)

lemma youtube_entry_keys:
  "youtube_entry p r = Inr v \<Longrightarrow> \<exists>x u. v = JDict [(''views'', x), (''url'', JStr u)]"
  unfolding youtube_entry_def by (auto simp: bnd_eq_Inr)

lemma exact_loop_raises: "exact_loop a t rs = Inl e \<Longrightarrow> is_Exception e"
  by (induction rs)
     (auto simp: bnd_eq_Inl split: if_splits dest: exact_match_raises youtube_entry_raises)

lemma exact_loop_keys:
  "exact_loop a t rs = Inr (Some v) \<Longrightarrow> \<exists>x u. v = JDict [(''views'', x), (''url'', JStr u)]"
  by (induction rs) (auto simp: bnd_eq_Inr split: if_splits dest: youtube_entry_keys)

lemma fallback_test_raises: "fallback_test r = Inl e \<Longrightarrow> is_Exception e"
  unfolding fallback_test_def
  by (auto simp: bnd_eq_Inl split: if_splits dest: dict_get_raises)

lemma fallback_loop_raises: "fallback_loop rs = Inl e \<Longrightarrow> is_Exception e"
  by (induction rs)
     (auto simp: bnd_eq_Inl split: if_splits dest: fallback_test_raises youtube_entry_raises)

lemma fallback_loop_keys:
  "fallback_loop rs = Inr (Some v) \<Longrightarrow> \<exists>x u. v = JDict [(''views'', x), (''url'', JStr u)]"
  by (induction rs) (auto simp: bnd_eq_Inr split: if_splits dest: youtube_entry_keys)

lemma except_Exception_Inr [simp]: "except_Exception (Inr v) = Inr v"
  by (simp add: except_Exception_def)

lemma except_Exception_Inl [simp]:
  "except_Exception (Inl e) = (if is_Exception e then Inr JNull else Inl e)"
  by (simp add: except_Exception_def)

lemma spotify_body_raises: "spotify_body results = Inl e \<Longrightarrow> is_Exception e"
  unfolding spotify_body_def
  by (auto simp: bnd_eq_Inl split: if_splits
           dest: tracks_items_raises index0_raises spotify_entry_raises)

lemma spotify_body_shape:
  "spotify_body results = Inr v \<Longrightarrow>
   v = JNull \<or> (\<exists>p u n d. v = JDict [(''popularity'', p), (''external_url'', u),
                                         (''album'', n), (''release_date'', d)])"
  unfolding spotify_body_def
  by (auto simp: bnd_eq_Inr split: if_splits dest: spotify_entry_keys)


lemma get_spotify_data_shape:
  assumes "get_spotify_data self a t = Inr v"
  shows "v = JNull \<or> (\<exists>p u n d. v = JDict [(''popularity'', p), (''external_url'', u),
                                             (''album'', n), (''release_date'', d)])"
proof (cases "sp self (spotify_query a t)")
  case (Inl x)
  with assms show ?thesis by (auto simp: get_spotify_data_def split: if_splits)
next
  case (Inr results)
  show ?thesis
  proof (cases "spotify_body results")
    case (Inl x)
    with Inr assms spotify_body_raises [OF Inl] show ?thesis
      by (simp add: get_spotify_data_def)
  next
    case (Inr w)
    with \<open>sp self (spotify_query a t) = Inr results\<close> assms have "w = v"
      by (simp add: get_spotify_data_def)
    with spotify_body_shape [OF Inr] show ?thesis by simp
  qed
qed

lemma youtube_body_raises: "youtube_body a t results = Inl e \<Longrightarrow> is_Exception e"
  unfolding youtube_body_def
  by (auto simp: bnd_eq_Inl split: if_splits option.splits
           dest: py_iter_raises exact_loop_raises fallback_loop_raises)

lemma youtube_body_shape:
  "youtube_body a t results = Inr v \<Longrightarrow>
   v = JNull \<or> (\<exists>x u. v = JDict [(''views'', x), (''url'', JStr u)])"
  unfolding youtube_body_def
  by (auto simp: bnd_eq_Inr split: if_splits option.splits
           dest: exact_loop_keys fallback_loop_keys)


lemma get_youtube_music_data_shape:
  assumes "get_youtube_music_data self a t = Inr v"
  shows "v = JNull \<or> (\<exists>x u. v = JDict [(''views'', x), (''url'', JStr u)])"
proof (cases "yt self")
  case None
  with assms show ?thesis by (simp add: get_youtube_music_data_def)
next
  case (Some search)
  show ?thesis
  proof (cases "search (youtube_query a t)")
    case (Inl x)
    with Some assms show ?thesis
      by (auto simp: get_youtube_music_data_def split: if_splits)
  next
    case (Inr results)
    show ?thesis
    proof (cases "youtube_body a t results")
      case (Inl x)
      with Some Inr assms youtube_body_raises [OF Inl] show ?thesis
        by (simp add: get_youtube_music_data_def)
    next
      case (Inr w)
      with Some \<open>search (youtube_query a t) = Inr results\<close> assms have "w = v"
        by (simp add: get_youtube_music_data_def)
      with youtube_body_shape [OF Inr] show ?thesis by simp
    qed
  qed
qed

text \<open>The record the aggregator returns, from what the two lookups returned.\<close>

lemma get_streaming_data_returns:
  assumes "get_streaming_data out self a t = Inr aggregate"
  shows "\<exists>sd yd. get_spotify_data self a t = Inr sd \<and> get_youtube_music_data self a t = Inr yd \<and>
           aggregate = JDict [(''artist'', JStr a), (''title'', JStr t),
                              (''spotify'', if sd = JNull then JDict [] else sd),
                              (''youtube_music'', if yd = JNull then JDict [] else yd)]"
proof -
  from assms obtain sd yd where sd: "get_spotify_data self a t = Inr sd"
    and yd: "get_youtube_music_data self a t = Inr yd"
    by (auto simp: get_streaming_data_def Let_def bnd_eq_Inr)
  from get_spotify_data_shape [OF sd] get_youtube_music_data_shape [OF yd] assms sd yd
  show ?thesis
    by (auto simp: get_streaming_data_def Let_def bnd_eq_Inr split: if_splits)
qed

lemma get_streaming_data_Inr:
  assumes "\<forall>line. out line = None"
    and "get_spotify_data self a t = Inr sd" and "get_youtube_music_data self a t = Inr yd"
  shows "get_streaming_data out self a t =
         Inr (JDict [(''artist'', JStr a), (''title'', JStr t),
                     (''spotify'', if sd = JNull then JDict [] else sd),
                     (''youtube_music'', if yd = JNull then JDict [] else yd)])"
  using get_spotify_data_shape [OF assms(2)] get_youtube_music_data_shape [OF assms(3)] assms
  by (auto simp: get_streaming_data_def print_line_def)

section \<open>The two loops of backend B\<close>

lemma exact_match_is_dict: "exact_match kind a t r = Inr b \<Longrightarrow> \<exists>d. r = JDict d"
  by (cases r) (simp_all add: exact_match_def)

lemma exact_match_video_not_song:
  "exact_match ''video'' a t r = Inr True \<Longrightarrow> exact_match ''song'' a t r = Inr False"
  by (cases r) (auto simp: exact_match_def bnd_eq_Inr split: if_splits option.splits)

lemma exact_loop_skip:
  "\<forall>r\<in>set earlier. exact_match ''song'' a t r = Inr False \<and>
                     exact_match ''video'' a t r = Inr False \<Longrightarrow>
   exact_loop a t (earlier @ rest) = exact_loop a t rest"
  by (induction earlier) simp_all

lemma exact_loop_none:
  "\<forall>r\<in>set rs. exact_match ''song'' a t r = Inr False \<and>
                exact_match ''video'' a t r = Inr False \<Longrightarrow>
   exact_loop a t rs = Inr None"
  using exact_loop_skip [of rs a t "[]"] by simp

lemma fallback_loop_skip:
  "\<forall>r\<in>set earlier. fallback_test r = Inr False \<Longrightarrow>
   fallback_loop (earlier @ rest) = fallback_loop rest"
  by (induction earlier) simp_all


lemma fallback_test_dict:
  "fallback_test (JDict d) =
     Inr (dict_get (JDict d) ''resultType'' = Inr (JStr ''song'') \<and>
          (\<exists>v. dict_get (JDict d) ''views'' = Inr v \<and> truthy v))"
  by (auto simp: fallback_test_def split: option.splits)

lemma youtube_body_list:
  "youtube_body a t (JList (r # rs)) =
     bnd (exact_loop a t (r # rs)) (\<lambda>found.
       case found of
         Some entry \<Rightarrow> Inr entry
       | None \<Rightarrow>
           bnd (fallback_loop (r # rs)) (\<lambda>found.
             case found of Some entry \<Rightarrow> Inr entry | None \<Rightarrow> Inr JNull))"
  by (simp add: youtube_body_def del: exact_loop.simps fallback_loop.simps)

lemma get_youtube_music_data_answer:
  "yt self = Some search \<Longrightarrow> search (youtube_query a t) = Inr results \<Longrightarrow>
   get_youtube_music_data self a t = except_Exception (youtube_body a t results)"
  by (simp add: get_youtube_music_data_def)

section \<open>Failures inside a lookup\<close>



text \<open>A constructor of the second client that raises leaves \<open>yt\<close> at \<open>None\<close>.\<close>

lemma init_without_youtube:
  assumes "Spotify client_id client_secret = Inr sp_client"
    and "\<And>arg. \<exists>e. YTMusic arg = Inl e \<and> is_Exception e"
  shows "init Spotify YTMusic path_exists client_id client_secret auth_file =
           Inr \<lparr>sp = sp_client, yt = None\<rparr>"
proof -
  obtain e where "(case auth_file of
               None \<Rightarrow> YTMusic None
             | Some file \<Rightarrow> if file \<noteq> [] \<and> path_exists file then YTMusic (Some file)
                            else YTMusic None) = Inl e" "is_Exception e"
    using assms(2) by (cases auth_file) (auto split: if_splits, metis+)
  with assms(1) show ?thesis by (simp add: init_def)
qed

lemmas lookup_defs =
  get_streaming_data_def print_line_def get_spotify_data_def spotify_body_def tracks_items_def
  spotify_entry_def spotify_query_def get_youtube_music_data_def youtube_body_def
  youtube_query_def exact_match_def youtube_entry_def fallback_test_def
  music_url_def video_url_def

section \<open>Backend A entry of the aggregate record\<close>

text \<open>
  C1 (as amended). When backend A answers with at least one item and that item carries
  the fields the code reads (\<open>popularity\<close>, \<open>external_urls.spotify\<close>, \<open>album.name\<close>,
  \<open>album.release_date\<close>), the lookup returns the four-field dict
  \<open>{popularity, external_url, album, release_date}\<close> built from the first item, and every
  record the aggregator returns carries that same dict, unprojected, under \<open>spotify\<close>;
  it returns one whenever the other lookup returns and the progress lines are written.
\<close>

theorem spotify_entry_has_four_fields:
  assumes "sp self (spotify_query artist title) = Inr results"
    and "truthy results"
    and "tracks_items results = Inr (JList (track # others))"
    and "subscript track ''popularity'' = Inr popularity"
    and "subscript track ''external_urls'' = Inr urls"
    and "subscript urls ''spotify'' = Inr url"
    and "subscript track ''album'' = Inr album"
    and "subscript album ''name'' = Inr album_name"
    and "subscript album ''release_date'' = Inr release_date"
  shows "get_spotify_data self artist title =
           Inr (JDict [(''popularity'', popularity), (''external_url'', url),
                       (''album'', album_name), (''release_date'', release_date)])
         \<and> (\<forall>aggregate.
               get_streaming_data out self artist title = Inr aggregate \<longrightarrow>
               subscript aggregate ''spotify'' =
                 Inr (JDict [(''popularity'', popularity), (''external_url'', url),
                             (''album'', album_name), (''release_date'', release_date)]))
         \<and> ((\<forall>line. out line = None) \<longrightarrow>
             (\<forall>youtube_music_data.
               get_youtube_music_data self artist title = Inr youtube_music_data \<longrightarrow>
               (\<exists>data. get_streaming_data out self artist title = Inr (JDict data) \<and>
                  map_of data ''spotify'' =
                    Some (JDict [(''popularity'', popularity), (''external_url'', url),
                                 (''album'', album_name), (''release_date'', release_date)]))))"
proof -
  let ?entry = "JDict [(''popularity'', popularity), (''external_url'', url),
                       (''album'', album_name), (''release_date'', release_date)]"
  have sd: "get_spotify_data self artist title = Inr ?entry"
    using assms by (simp add: get_spotify_data_def spotify_body_def spotify_entry_def)
  show ?thesis
  proof (intro conjI allI impI)
    show "get_spotify_data self artist title = Inr ?entry"
      by (rule sd)
  next
    fix aggregate
    assume "get_streaming_data out self artist title = Inr aggregate"
    from get_streaming_data_returns [OF this] sd
    show "subscript aggregate ''spotify'' = Inr ?entry" by auto
  next
    fix yd
    assume "\<forall>line. out line = None" "get_youtube_music_data self artist title = Inr yd"
    from get_streaming_data_Inr [OF this(1) sd this(2)]
    show "\<exists>data. get_streaming_data out self artist title = Inr (JDict data) \<and>
                  map_of data ''spotify'' = Some ?entry"
      by simp
  qed
qed

text \<open>The theorem at one concrete answer of backend A.\<close>

theorem spotify_entry_has_four_fields_witness:
  "get_streaming_data (\<lambda>line. None)
     \<lparr>sp = (\<lambda>q. Inr (JDict [(''tracks'', JDict [(''items'', JList [JDict
              [(''popularity'', JInt 80),
               (''external_urls'', JDict [(''spotify'', JStr ''https://open.spotify.com/track/1'')]),
               (''album'', JDict [(''name'', JStr ''Transistor''),
                                  (''release_date'', JStr ''1997-08-05'')])]])])])),
      yt = None\<rparr> ''311'' ''Beautiful Disaster'' =
   Inr (JDict [(''artist'', JStr ''311''), (''title'', JStr ''Beautiful Disaster''),
               (''spotify'', JDict [(''popularity'', JInt 80),
                  (''external_url'', JStr ''https://open.spotify.com/track/1''),
                  (''album'', JStr ''Transistor''), (''release_date'', JStr ''1997-08-05'')]),
               (''youtube_music'', JDict [])])"
proof -
  let ?urls = "JDict [(''spotify'', JStr ''https://open.spotify.com/track/1'')]"
  let ?album = "JDict [(''name'', JStr ''Transistor''), (''release_date'', JStr ''1997-08-05'')]"
  let ?track = "JDict [(''popularity'', JInt 80), (''external_urls'', ?urls), (''album'', ?album)]"
  let ?results = "JDict [(''tracks'', JDict [(''items'', JList [?track])])]"
  let ?self = "\<lparr>sp = (\<lambda>q. Inr ?results), yt = None\<rparr>"
  let ?out = "\<lambda>line :: progress. (None :: exn option)"
  have 1: "sp ?self (spotify_query ''311'' ''Beautiful Disaster'') = Inr ?results" by simp
  have 2: "truthy ?results" by simp
  have 3: "tracks_items ?results = Inr (JList (?track # []))" by (simp add: tracks_items_def)
  have 4: "subscript ?track ''popularity'' = Inr (JInt 80)" by simp
  have 5: "subscript ?track ''external_urls'' = Inr ?urls" by simp
  have 6: "subscript ?urls ''spotify'' = Inr (JStr ''https://open.spotify.com/track/1'')" by simp
  have 7: "subscript ?track ''album'' = Inr ?album" by simp
  have 8: "subscript ?album ''name'' = Inr (JStr ''Transistor'')" by simp
  have 9: "subscript ?album ''release_date'' = Inr (JStr ''1997-08-05'')" by simp
  have 10: "get_youtube_music_data ?self ''311'' ''Beautiful Disaster'' = Inr JNull"
    by (simp add: get_youtube_music_data_def)
  have 11: "\<forall>line. ?out line = None" by simp
  from spotify_entry_has_four_fields [OF 1 2 3 4 5 6 7 8 9, where out = ?out] 10 11
  obtain data where
    "get_streaming_data ?out ?self ''311'' ''Beautiful Disaster'' = Inr (JDict data)" by blast
  then show ?thesis by (simp add: lookup_defs)
qed

text \<open>
  C1 as stated fails: for a one-item answer the \<open>spotify\<close> entry of the aggregate has
  four fields, the URL sits under \<open>external_url\<close>, and album and release date are kept.
\<close>

theorem spotify_entry_two_fields_counterexample:
  "get_streaming_data (\<lambda>line. None)
     \<lparr>sp = (\<lambda>q. Inr (JDict [(''tracks'', JDict [(''items'', JList [JDict
              [(''popularity'', JInt 80),
               (''external_urls'', JDict [(''spotify'', JStr ''https://open.spotify.com/track/1'')]),
               (''album'', JDict [(''name'', JStr ''Transistor''),
                                  (''release_date'', JStr ''1997-08-05'')])]])])])),
      yt = None\<rparr> ''311'' ''Beautiful Disaster'' =
   Inr (JDict [(''artist'', JStr ''311''), (''title'', JStr ''Beautiful Disaster''),
               (''spotify'', JDict [(''popularity'', JInt 80),
                  (''external_url'', JStr ''https://open.spotify.com/track/1''),
                  (''album'', JStr ''Transistor''), (''release_date'', JStr ''1997-08-05'')]),
               (''youtube_music'', JDict [])])
   \<and> get_streaming_data (\<lambda>line. None)
     \<lparr>sp = (\<lambda>q. Inr (JDict [(''tracks'', JDict [(''items'', JList [JDict
              [(''popularity'', JInt 80),
               (''external_urls'', JDict [(''spotify'', JStr ''https://open.spotify.com/track/1'')]),
               (''album'', JDict [(''name'', JStr ''Transistor''),
                                  (''release_date'', JStr ''1997-08-05'')])]])])])),
      yt = None\<rparr> ''311'' ''Beautiful Disaster'' \<noteq>
   Inr (JDict [(''artist'', JStr ''311''), (''title'', JStr ''Beautiful Disaster''),
               (''spotify'', JDict [(''popularity'', JInt 80),
                  (''url'', JStr ''https://open.spotify.com/track/1'')]),
               (''youtube_music'', JDict [])])"
  by (simp add: lookup_defs)

section \<open>Shape of an entry\<close>

text \<open>
  C2 (as amended). Whatever the backends answer, a lookup that returns gives \<open>None\<close>
  (stored as the empty dict) or a dict with a metric key and a URL key: \<open>popularity\<close>
  and \<open>external_url\<close> (with \<open>album\<close> and \<open>release_date\<close>) for backend A, \<open>views\<close> and
  \<open>url\<close> for backend B, whose URL is always a string. The value under the metric key is
  whatever the backend supplied; under \<open>views\<close> it is \<open>None\<close> when the selected result
  carries no views count. Every record the aggregator returns has the four keys, with
  entries of these shapes under \<open>spotify\<close> and \<open>youtube_music\<close>.
\<close>

theorem entries_have_metric_and_url_keys:
  "(get_spotify_data self artist title = Inr spotify_data \<longrightarrow>
      spotify_data = JNull \<or>
      (\<exists>popularity url album release_date.
         spotify_data = JDict [(''popularity'', popularity), (''external_url'', url),
                               (''album'', album), (''release_date'', release_date)]))
   \<and> (get_youtube_music_data self artist title = Inr youtube_music_data \<longrightarrow>
      youtube_music_data = JNull \<or>
      (\<exists>views url. youtube_music_data = JDict [(''views'', views), (''url'', JStr url)]))
   \<and> ((\<forall>line. out line = None) \<longrightarrow>
      get_spotify_data self artist title = Inr spotify_data \<longrightarrow>
      get_youtube_music_data self artist title = Inr youtube_music_data \<longrightarrow>
      get_streaming_data out self artist title =
        Inr (JDict [(''artist'', JStr artist), (''title'', JStr title),
                    (''spotify'', if spotify_data = JNull then JDict [] else spotify_data),
                    (''youtube_music'',
                       if youtube_music_data = JNull then JDict [] else youtube_music_data)]))
   \<and> (get_streaming_data out self artist title = Inr aggregate \<longrightarrow>
      (\<exists>spotify_field youtube_music_field.
         aggregate = JDict [(''artist'', JStr artist), (''title'', JStr title),
                            (''spotify'', spotify_field),
                            (''youtube_music'', youtube_music_field)] \<and>
         (spotify_field = JDict [] \<or>
          (\<exists>popularity url album release_date.
             spotify_field = JDict [(''popularity'', popularity), (''external_url'', url),
                                    (''album'', album), (''release_date'', release_date)])) \<and>
         (youtube_music_field = JDict [] \<or>
          (\<exists>views url.
             youtube_music_field = JDict [(''views'', views), (''url'', JStr url)]))))"
proof (intro conjI impI)
  assume "get_spotify_data self artist title = Inr spotify_data"
  then show "spotify_data = JNull \<or>
      (\<exists>popularity url album release_date.
         spotify_data = JDict [(''popularity'', popularity), (''external_url'', url),
                               (''album'', album), (''release_date'', release_date)])"
    by (rule get_spotify_data_shape)
next
  assume "get_youtube_music_data self artist title = Inr youtube_music_data"
  then show "youtube_music_data = JNull \<or>
      (\<exists>views url. youtube_music_data = JDict [(''views'', views), (''url'', JStr url)])"
    by (rule get_youtube_music_data_shape)
next
  assume "\<forall>line. out line = None" "get_spotify_data self artist title = Inr spotify_data"
    "get_youtube_music_data self artist title = Inr youtube_music_data"
  then show "get_streaming_data out self artist title =
        Inr (JDict [(''artist'', JStr artist), (''title'', JStr title),
                    (''spotify'', if spotify_data = JNull then JDict [] else spotify_data),
                    (''youtube_music'',
                       if youtube_music_data = JNull then JDict [] else youtube_music_data)])"
    by (rule get_streaming_data_Inr)
next
  assume "get_streaming_data out self artist title = Inr aggregate"
  from get_streaming_data_returns [OF this] obtain sd yd
    where sd: "get_spotify_data self artist title = Inr sd"
      and yd: "get_youtube_music_data self artist title = Inr yd"
      and agg: "aggregate = JDict [(''artist'', JStr artist), (''title'', JStr title),
                              (''spotify'', if sd = JNull then JDict [] else sd),
                              (''youtube_music'', if yd = JNull then JDict [] else yd)]"
    by blast
  from get_spotify_data_shape [OF sd] get_youtube_music_data_shape [OF yd] agg
  show "\<exists>spotify_field youtube_music_field.
         aggregate = JDict [(''artist'', JStr artist), (''title'', JStr title),
                            (''spotify'', spotify_field),
                            (''youtube_music'', youtube_music_field)] \<and>
         (spotify_field = JDict [] \<or>
          (\<exists>popularity url album release_date.
             spotify_field = JDict [(''popularity'', popularity), (''external_url'', url),
                                    (''album'', album), (''release_date'', release_date)])) \<and>
         (youtube_music_field = JDict [] \<or>
          (\<exists>views url.
             youtube_music_field = JDict [(''views'', views), (''url'', JStr url)]))"
    by auto
qed

text \<open>The theorem at a query that backend A misses and backend B matches.\<close>

theorem entries_have_metric_and_url_keys_witness:
  "get_streaming_data (\<lambda>line. None)
     \<lparr>sp = (\<lambda>q. Inr (JDict [(''tracks'', JDict [(''items'', JList [])])])),
      yt = Some (\<lambda>q. Inr (JList [JDict
        [(''resultType'', JStr ''song''), (''artists'', JList [JDict [(''name'', JStr ''311'')]]),
         (''title'', JStr ''Amber''), (''views'', JStr ''12M''), (''videoId'', JStr ''abc'')]]))\<rparr>
     ''311'' ''Amber'' =
   Inr (JDict [(''artist'', JStr ''311''), (''title'', JStr ''Amber''), (''spotify'', JDict []),
          (''youtube_music'',
             JDict [(''views'', JStr ''12M''),
                    (''url'', JStr ''https://music.youtube.com/watch?v=abc'')])])"
proof -
  let ?song = "JDict [(''resultType'', JStr ''song''),
                 (''artists'', JList [JDict [(''name'', JStr ''311'')]]),
                 (''title'', JStr ''Amber''), (''views'', JStr ''12M''), (''videoId'', JStr ''abc'')]"
  let ?self = "\<lparr>sp = (\<lambda>q. Inr (JDict [(''tracks'', JDict [(''items'', JList [])])])),
                 yt = Some (\<lambda>q. Inr (JList [?song]))\<rparr>"
  let ?out = "\<lambda>line :: progress. (None :: exn option)"
  let ?entry = "JDict [(''views'', JStr ''12M''),
                       (''url'', JStr ''https://music.youtube.com/watch?v=abc'')]"
  have 1: "\<forall>line. ?out line = None" by simp
  have 2: "get_spotify_data ?self ''311'' ''Amber'' = Inr JNull"
    by (simp add: lookup_defs)
  have 3: "get_youtube_music_data ?self ''311'' ''Amber'' = Inr ?entry"
    by (simp add: lookup_defs)
  from entries_have_metric_and_url_keys
         [of ?self "''311''" "''Amber''" JNull ?entry ?out] 1 2 3
  show ?thesis by simp
qed

text \<open>
  C2 as stated fails: an exact song match without a views count gives an entry with a URL
  and no metric value.
\<close>

theorem url_without_metric_value_counterexample:
  "get_youtube_music_data
     \<lparr>sp = (\<lambda>q. Inr JNull),
      yt = Some (\<lambda>q. Inr (JList [JDict
        [(''resultType'', JStr ''song''), (''artists'', JList [JDict [(''name'', JStr ''311'')]]),
         (''title'', JStr ''Amber''), (''videoId'', JStr ''abc'')]]))\<rparr>
     ''311'' ''Amber'' =
   Inr (JDict [(''views'', JNull), (''url'', JStr ''https://music.youtube.com/watch?v=abc'')])"
  by (simp add: lookup_defs)

section \<open>Selection among the results of backend B\<close>

text \<open>
  C3 (as amended). The exact-match scan is one pass: when no earlier entry is an exact
  match of either type, an entry that is an exact song match is returned with the
  music-service URL, and an entry that is an exact video match is returned with the
  video-site URL, whatever follows it in the list. So an exact song match is selected
  exactly when no exact video match precedes it.
\<close>

theorem first_exact_match_of_either_type_wins:
  assumes "yt self = Some search"
    and "search (youtube_query artist title) = Inr (JList (earlier @ result # later))"
    and "\<forall>r\<in>set earlier. exact_match ''song'' artist title r = Inr False \<and>
                          exact_match ''video'' artist title r = Inr False"
    and "dict_get result ''views'' = Inr views"
    and "subscript result ''videoId'' = Inr video_id"
  shows "(exact_match ''song'' artist title result = Inr True \<longrightarrow>
            get_youtube_music_data self artist title =
              Inr (JDict [(''views'', views),
                     (''url'', JStr (''https://music.youtube.com/watch?v='' @ py_str video_id))]))
       \<and> (exact_match ''video'' artist title result = Inr True \<longrightarrow>
            get_youtube_music_data self artist title =
              Inr (JDict [(''views'', views),
                     (''url'', JStr (''https://www.youtube.com/watch?v='' @ py_str video_id))]))"
proof -
  obtain x xs where list: "earlier @ result # later = x # xs"
    by (cases earlier) auto
  have loop: "exact_loop artist title (x # xs) = exact_loop artist title (result # later)"
    using exact_loop_skip [OF assms(3), of "result # later"] list by simp
  have body: "get_youtube_music_data self artist title =
              except_Exception (youtube_body artist title (JList (x # xs)))"
    using get_youtube_music_data_answer [OF assms(1)] assms(2) list by simp
  show ?thesis
  proof (intro conjI impI)
    assume "exact_match ''song'' artist title result = Inr True"
    then have "exact_loop artist title (result # later) =
               Inr (Some (JDict [(''views'', views),
                 (''url'', JStr (''https://music.youtube.com/watch?v='' @ py_str video_id))]))"
      using assms(4,5) by (simp add: youtube_entry_def music_url_def)
    then show "get_youtube_music_data self artist title =
              Inr (JDict [(''views'', views),
                     (''url'', JStr (''https://music.youtube.com/watch?v='' @ py_str video_id))])"
      unfolding body youtube_body_list loop by simp
  next
    assume video: "exact_match ''video'' artist title result = Inr True"
    then have "exact_loop artist title (result # later) =
               Inr (Some (JDict [(''views'', views),
                 (''url'', JStr (''https://www.youtube.com/watch?v='' @ py_str video_id))]))"
      using assms(4,5) exact_match_video_not_song [OF video]
      by (simp add: youtube_entry_def video_url_def)
    then show "get_youtube_music_data self artist title =
              Inr (JDict [(''views'', views),
                     (''url'', JStr (''https://www.youtube.com/watch?v='' @ py_str video_id))])"
      unfolding body youtube_body_list loop by simp
  qed
qed

text \<open>The theorem at a list with a cover first, then the song, then the video.\<close>

theorem first_exact_match_of_either_type_wins_witness:
  "get_youtube_music_data
     \<lparr>sp = (\<lambda>q. Inr JNull),
      yt = Some (\<lambda>q. Inr (JList
        [JDict [(''resultType'', JStr ''song''), (''artists'', JList [JDict [(''name'', JStr ''Cover Band'')]]),
                (''title'', JStr ''Amber''), (''views'', JStr ''9K''), (''videoId'', JStr ''c0'')],
         JDict [(''resultType'', JStr ''song''), (''artists'', JList [JDict [(''name'', JStr ''311'')]]),
                (''title'', JStr ''Amber''), (''views'', JStr ''12M''), (''videoId'', JStr ''s1'')],
         JDict [(''resultType'', JStr ''video''), (''artists'', JList [JDict [(''name'', JStr ''311'')]]),
                (''title'', JStr ''Amber''), (''views'', JStr ''5M''), (''videoId'', JStr ''v1'')]]))\<rparr>
     ''311'' ''Amber'' =
   Inr (JDict [(''views'', JStr ''12M''), (''url'', JStr ''https://music.youtube.com/watch?v=s1'')])"
proof -
  let ?cover = "JDict [(''resultType'', JStr ''song''),
                  (''artists'', JList [JDict [(''name'', JStr ''Cover Band'')]]),
                  (''title'', JStr ''Amber''), (''views'', JStr ''9K''), (''videoId'', JStr ''c0'')]"
  let ?song = "JDict [(''resultType'', JStr ''song''),
                  (''artists'', JList [JDict [(''name'', JStr ''311'')]]),
                  (''title'', JStr ''Amber''), (''views'', JStr ''12M''), (''videoId'', JStr ''s1'')]"
  let ?video = "JDict [(''resultType'', JStr ''video''),
                  (''artists'', JList [JDict [(''name'', JStr ''311'')]]),
                  (''title'', JStr ''Amber''), (''views'', JStr ''5M''), (''videoId'', JStr ''v1'')]"
  let ?search = "\<lambda>q :: string. (Inr (JList [?cover, ?song, ?video]) :: exn + json)"
  let ?self = "\<lparr>sp = (\<lambda>q. Inr JNull), yt = Some ?search\<rparr>"
  have 1: "yt ?self = Some ?search" by simp
  have 2: "?search (youtube_query ''311'' ''Amber'') = Inr (JList ([?cover] @ ?song # [?video]))"
    by simp
  have 3: "\<forall>r\<in>set [?cover]. exact_match ''song'' ''311'' ''Amber'' r = Inr False \<and>
                          exact_match ''video'' ''311'' ''Amber'' r = Inr False"
    by (simp add: exact_match_def)
  have 4: "dict_get ?song ''views'' = Inr (JStr ''12M'')" by simp
  have 5: "subscript ?song ''videoId'' = Inr (JStr ''s1'')" by simp
  have 6: "exact_match ''song'' ''311'' ''Amber'' ?song = Inr True"
    by (simp add: exact_match_def)
  from first_exact_match_of_either_type_wins [OF 1 2 3 4 5] 6 show ?thesis by simp
qed

text \<open>
  C3 as stated fails: with the exact video match listed before the exact song match, the
  video is returned.
\<close>

theorem exact_video_before_exact_song_counterexample:
  "exact_match ''song'' ''311'' ''Amber''
     (JDict [(''resultType'', JStr ''song''), (''artists'', JList [JDict [(''name'', JStr ''311'')]]),
             (''title'', JStr ''Amber''), (''views'', JStr ''12M''), (''videoId'', JStr ''s1'')])
     = Inr True
   \<and> get_youtube_music_data
     \<lparr>sp = (\<lambda>q. Inr JNull),
      yt = Some (\<lambda>q. Inr (JList
        [JDict [(''resultType'', JStr ''video''), (''artists'', JList [JDict [(''name'', JStr ''311'')]]),
                (''title'', JStr ''Amber''), (''views'', JStr ''5M''), (''videoId'', JStr ''v1'')],
         JDict [(''resultType'', JStr ''song''), (''artists'', JList [JDict [(''name'', JStr ''311'')]]),
                (''title'', JStr ''Amber''), (''views'', JStr ''12M''), (''videoId'', JStr ''s1'')]]))\<rparr>
     ''311'' ''Amber'' =
   Inr (JDict [(''views'', JStr ''5M''), (''url'', JStr ''https://www.youtube.com/watch?v=v1'')])"
  by (simp add: lookup_defs)

text \<open>
  C4 (as amended). When the exact tests are false on every entry, the first entry whose
  \<open>resultType\<close> is \<open>song\<close> and whose \<open>views\<close> value is true in Python's sense (present,
  not \<open>None\<close>, not \<open>0\<close>, not empty) is returned, whatever its artist and title, with the
  music-service URL of its \<open>videoId\<close>.
\<close>

theorem fallback_selects_first_song_with_truthy_views:
  assumes "yt self = Some search"
    and "search (youtube_query artist title) = Inr (JList (earlier @ result # later))"
    and "\<forall>r\<in>set (earlier @ result # later).
           exact_match ''song'' artist title r = Inr False \<and>
           exact_match ''video'' artist title r = Inr False"
    and "\<forall>r\<in>set earlier. \<not> (dict_get r ''resultType'' = Inr (JStr ''song'') \<and>
                               (\<exists>v. dict_get r ''views'' = Inr v \<and> truthy v))"
    and "dict_get result ''resultType'' = Inr (JStr ''song'')"
    and "dict_get result ''views'' = Inr views"
    and "truthy views"
    and "subscript result ''videoId'' = Inr video_id"
  shows "get_youtube_music_data self artist title =
           Inr (JDict [(''views'', views),
                  (''url'', JStr (''https://music.youtube.com/watch?v='' @ py_str video_id))])"
proof -
  obtain x xs where list: "earlier @ result # later = x # xs"
    by (cases earlier) auto
  have body: "get_youtube_music_data self artist title =
              except_Exception (youtube_body artist title (JList (x # xs)))"
    using get_youtube_music_data_answer [OF assms(1)] assms(2) list by simp
  have exact: "exact_loop artist title (x # xs) = Inr None"
    using exact_loop_none [OF assms(3)] list by simp
  have "\<forall>r\<in>set earlier. fallback_test r = Inr False"
  proof
    fix r assume r: "r \<in> set earlier"
    with assms(3) have "exact_match ''song'' artist title r = Inr False" by simp
    then obtain d where "r = JDict d" using exact_match_is_dict by blast
    with assms(4) r show "fallback_test r = Inr False"
      by (simp only: fallback_test_dict)
  qed
  then have "fallback_loop (x # xs) = fallback_loop (result # later)"
    using fallback_loop_skip [of earlier "result # later"] list by simp
  moreover have "fallback_test result = Inr True"
    using assms(5,6,7) by (simp add: fallback_test_def)
  ultimately have "fallback_loop (x # xs) =
      Inr (Some (JDict [(''views'', views),
             (''url'', JStr (''https://music.youtube.com/watch?v='' @ py_str video_id))]))"
    using assms(6,8) by (simp add: youtube_entry_def music_url_def)
  then show ?thesis
    unfolding body youtube_body_list exact by simp
qed

text \<open>The theorem at a list of a fan video and two covers.\<close>

theorem fallback_selects_first_song_with_truthy_views_witness:
  "get_youtube_music_data
     \<lparr>sp = (\<lambda>q. Inr JNull),
      yt = Some (\<lambda>q. Inr (JList
        [JDict [(''resultType'', JStr ''video''),
                (''artists'', JList [JDict [(''name'', JStr ''Fan Channel'')]]),
                (''title'', JStr ''Amber (live)''), (''views'', JStr ''2K''), (''videoId'', JStr ''f0'')],
         JDict [(''resultType'', JStr ''song''),
                (''artists'', JList [JDict [(''name'', JStr ''Cover Band'')]]),
                (''title'', JStr ''Amber''), (''views'', JStr ''9K''), (''videoId'', JStr ''c0'')],
         JDict [(''resultType'', JStr ''song''),
                (''artists'', JList [JDict [(''name'', JStr ''Other'')]]),
                (''title'', JStr ''Amber''), (''views'', JStr ''1K''), (''videoId'', JStr ''c1'')]]))\<rparr>
     ''311'' ''Amber'' =
   Inr (JDict [(''views'', JStr ''9K''), (''url'', JStr ''https://music.youtube.com/watch?v=c0'')])"
proof -
  let ?fan = "JDict [(''resultType'', JStr ''video''),
                (''artists'', JList [JDict [(''name'', JStr ''Fan Channel'')]]),
                (''title'', JStr ''Amber (live)''), (''views'', JStr ''2K''), (''videoId'', JStr ''f0'')]"
  let ?cover = "JDict [(''resultType'', JStr ''song''),
                (''artists'', JList [JDict [(''name'', JStr ''Cover Band'')]]),
                (''title'', JStr ''Amber''), (''views'', JStr ''9K''), (''videoId'', JStr ''c0'')]"
  let ?other = "JDict [(''resultType'', JStr ''song''),
                (''artists'', JList [JDict [(''name'', JStr ''Other'')]]),
                (''title'', JStr ''Amber''), (''views'', JStr ''1K''), (''videoId'', JStr ''c1'')]"
  let ?search = "\<lambda>q :: string. (Inr (JList [?fan, ?cover, ?other]) :: exn + json)"
  let ?self = "\<lparr>sp = (\<lambda>q. Inr JNull), yt = Some ?search\<rparr>"
  have 1: "yt ?self = Some ?search" by simp
  have 2: "?search (youtube_query ''311'' ''Amber'') = Inr (JList ([?fan] @ ?cover # [?other]))"
    by simp
  have 3: "\<forall>r\<in>set ([?fan] @ ?cover # [?other]).
             exact_match ''song'' ''311'' ''Amber'' r = Inr False \<and>
             exact_match ''video'' ''311'' ''Amber'' r = Inr False"
    by (simp add: exact_match_def)
  have 4: "\<forall>r\<in>set [?fan]. \<not> (dict_get r ''resultType'' = Inr (JStr ''song'') \<and>
                               (\<exists>v. dict_get r ''views'' = Inr v \<and> truthy v))"
    by simp
  have 5: "dict_get ?cover ''resultType'' = Inr (JStr ''song'')" by simp
  have 6: "dict_get ?cover ''views'' = Inr (JStr ''9K'')" by simp
  have 7: "truthy (JStr ''9K'')" by simp
  have 8: "subscript ?cover ''videoId'' = Inr (JStr ''c0'')" by simp
  from fallback_selects_first_song_with_truthy_views [OF 1 2 3 4 5 6 7 8]
  show ?thesis by simp
qed

text \<open>
  C4 as stated fails: a song entry whose views count is present and equal to \<open>0\<close> is
  not selected, and the lookup returns \<open>None\<close>.
\<close>

theorem song_with_zero_views_not_selected_counterexample:
  "dict_get (JDict [(''resultType'', JStr ''song''),
                    (''artists'', JList [JDict [(''name'', JStr ''Cover Band'')]]),
                    (''title'', JStr ''Amber''), (''views'', JInt 0), (''videoId'', JStr ''c0'')])
     ''views'' = Inr (JInt 0)
   \<and> get_youtube_music_data
     \<lparr>sp = (\<lambda>q. Inr JNull),
      yt = Some (\<lambda>q. Inr (JList
        [JDict [(''resultType'', JStr ''song''),
                (''artists'', JList [JDict [(''name'', JStr ''Cover Band'')]]),
                (''title'', JStr ''Amber''), (''views'', JInt 0), (''videoId'', JStr ''c0'')]]))\<rparr>
     ''311'' ''Amber'' = Inr JNull"
  by (simp add: lookup_defs)

text \<open>
  C9. On an entry whose \<open>artists\<close> value is absent or the empty list, the exact test of
  either result type evaluates to false without raising (the first artist is never
  indexed), and the exact-match loop moves on to the next entry.
\<close>

theorem entry_without_artists_is_skipped:
  assumes "dict_get result ''artists'' = Inr artists"
    and "artists = JNull \<or> artists = JList []"
  shows "exact_match kind artist title result = Inr False
       \<and> exact_loop artist title (result # rest) = exact_loop artist title rest"
proof -
  from assms(1) obtain d where d: "result = JDict d" by (cases result) simp_all
  have "\<not> truthy artists" using assms(2) by auto
  with assms(1) d have "exact_match k artist title result = Inr False" for k
    by (simp add: exact_match_def split: option.splits)
  then show ?thesis by simp
qed

text \<open>The theorem at an entry with an empty list and one without the key.\<close>

theorem entry_without_artists_is_skipped_witness:
  "exact_match ''song'' ''311'' ''Amber''
     (JDict [(''resultType'', JStr ''song''), (''artists'', JList []), (''title'', JStr ''Amber''),
             (''views'', JStr ''3K''), (''videoId'', JStr ''n0'')]) = Inr False
   \<and> exact_match ''video'' ''311'' ''Amber''
     (JDict [(''resultType'', JStr ''video''), (''title'', JStr ''Amber''),
             (''videoId'', JStr ''n1'')]) = Inr False
   \<and> exact_loop ''311'' ''Amber''
     [JDict [(''resultType'', JStr ''song''), (''artists'', JList []), (''title'', JStr ''Amber''),
             (''views'', JStr ''3K''), (''videoId'', JStr ''n0'')]] = Inr None"
proof -
  let ?empty = "JDict [(''resultType'', JStr ''song''), (''artists'', JList []),
                  (''title'', JStr ''Amber''), (''views'', JStr ''3K''), (''videoId'', JStr ''n0'')]"
  let ?absent = "JDict [(''resultType'', JStr ''video''), (''title'', JStr ''Amber''),
                  (''videoId'', JStr ''n1'')]"
  have 1: "dict_get ?empty ''artists'' = Inr (JList [])" by simp
  have 2: "dict_get ?absent ''artists'' = Inr JNull" by simp
  from entry_without_artists_is_skipped [OF 1, of "''song''" "''311''" "''Amber''" "[]"]
    entry_without_artists_is_skipped [OF 2, of "''video''" "''311''" "''Amber''" "[]"]
  show ?thesis by (simp add: exact_match_def)
qed

section \<open>The aggregator\<close>






text \<open>
  C7. With \<open>yt\<close> at \<open>None\<close>, the backend B lookup returns \<open>None\<close> for every query, and
  every record the aggregator returns has the empty dict under \<open>youtube_music\<close>.
\<close>

theorem youtube_unavailable_gives_empty_field:
  assumes "yt self = None"
  shows "get_youtube_music_data self artist title = Inr JNull
       \<and> (\<forall>aggregate. get_streaming_data out self artist title = Inr aggregate \<longrightarrow>
             subscript aggregate ''youtube_music'' = Inr (JDict []))"
proof (intro conjI allI impI)
  show yd: "get_youtube_music_data self artist title = Inr JNull"
    using assms by (simp add: get_youtube_music_data_def)
  fix aggregate
  assume "get_streaming_data out self artist title = Inr aggregate"
  from get_streaming_data_returns [OF this] yd
  show "subscript aggregate ''youtube_music'' = Inr (JDict [])" by auto
qed

text \<open>The theorem at a fetcher whose second constructor raised.\<close>

theorem youtube_unavailable_gives_empty_field_witness:
  "init (\<lambda>client_id client_secret. Inr (\<lambda>q. Inr (JDict [(''tracks'', JDict [(''items'', JList [])])])))
        (\<lambda>auth_file. Inl (OtherException ''credentials''))
        (\<lambda>path. False) ''id'' ''secret'' (Some ''headers_auth.json'') =
     Inr \<lparr>sp = (\<lambda>q. Inr (JDict [(''tracks'', JDict [(''items'', JList [])])])), yt = None\<rparr>
   \<and> get_youtube_music_data
       \<lparr>sp = (\<lambda>q. Inr (JDict [(''tracks'', JDict [(''items'', JList [])])])), yt = None\<rparr>
       ''311'' ''Amber'' = Inr JNull
   \<and> get_streaming_data (\<lambda>line. None)
       \<lparr>sp = (\<lambda>q. Inr (JDict [(''tracks'', JDict [(''items'', JList [])])])), yt = None\<rparr>
       ''311'' ''Amber'' =
     Inr (JDict [(''artist'', JStr ''311''), (''title'', JStr ''Amber''),
                 (''spotify'', JDict []), (''youtube_music'', JDict [])])"
proof -
  let ?self = "\<lparr>sp = (\<lambda>q. Inr (JDict [(''tracks'', JDict [(''items'', JList [])])])),
                 yt = None\<rparr>"
  let ?out = "\<lambda>line :: progress. (None :: exn option)"
  have 1: "yt ?self = None" by simp
  have 2: "get_streaming_data ?out ?self ''311'' ''Amber'' =
     Inr (JDict [(''artist'', JStr ''311''), (''title'', JStr ''Amber''),
                 (''spotify'', JDict []), (''youtube_music'', JDict [])])"
    by (simp add: lookup_defs)
  have 3: "init (\<lambda>client_id client_secret. Inr (\<lambda>q. Inr (JDict [(''tracks'', JDict [(''items'', JList [])])])))
        (\<lambda>auth_file. Inl (OtherException ''credentials''))
        (\<lambda>path. False) ''id'' ''secret'' (Some ''headers_auth.json'') = Inr ?self"
    by (simp add: init_def)
  from youtube_unavailable_gives_empty_field [OF 1, of "''311''" "''Amber''" ?out] 2 3
  show ?thesis by simp
qed

section \<open>Missing fields of the selected candidate\<close>



end
